theory Spec2Isabelle
  imports Complex_Main
begin

section \<open>The residual analysis of exampleKinematicConstraints.py\<close>

text \<open>
  The script builds a planar point mass constrained to the parabola \<open>ty = tx^2\<close>, solves
  a Moco study and, when pylab and scipy can be imported, plots the trajectory, draws
  the constraint forces and prints the residual of the equations of motion at every
  tenth sample (lines 84 to 145).

  The model follows that part of the script line by line. What the external libraries
  return is an input of the model: the solution's matrices, the states trajectory, the
  constraint Jacobian \<open>calcPq\<close> and the spline's second derivative. The numpy float64
  values are read as real numbers: rounding, infinities and NaN are not modelled.
  What the script prints and draws, and which external evaluations it makes, is a list
  of events in the order of the calls; a Python exception ends the run and is returned
  beside the events emitted before it.
\<close>

subsection \<open>Data\<close>

datatype error = IndexError

datatype event =
    Print_Skipping
  | Print_NumMultipliers nat
  | Plot "real list" "real list"
  | Spline_Deriv2 "real list" "real list"
  | CalcPq nat
  | Arrow real real real real
  | Print_Residuals real real real
  | Show

text \<open>
  \<open>Print_Skipping\<close> is line 90, \<open>Print_NumMultipliers\<close> line 102, \<open>Plot\<close> line 105,
  \<open>Spline_Deriv2 time v\<close> the spline through \<open>(time, v)\<close> differentiated twice at
  \<open>time\<close> (lines 109 to 113), \<open>CalcPq i\<close> the Jacobian evaluated at the state of
  index \<open>i\<close> (line 126), \<open>Arrow\<close> line 134, \<open>Print_Residuals t rx ry\<close> the three values
  formatted by line 140, \<open>Show\<close> line 145.
\<close>

text \<open>The accessors of a Moco solution that the script calls.\<close>

record 's solution =
  getTimeMat :: "real list"
  getStateMat :: "string \<Rightarrow> real list"
  getMultiplierNames :: "string list"
  getMultiplierMat :: "string \<Rightarrow> real list"
  exportToStatesTrajectory :: "'s list"

text \<open>The variables that lines 98 to 116 bind and the loop reads.\<close>

record 's vars =
  time :: "real list"
  tx :: "real list"
  ty :: "real list"
  multiplier :: "real list"
  accelx :: "real list"
  accely :: "real list"
  statesTraj :: "'s list"

text \<open>Indexing with a non-negative index: out of range raises IndexError.\<close>

definition getitem :: "'a list \<Rightarrow> nat \<Rightarrow> error + 'a" where
  "getitem xs i = (if i < length xs then Inr (xs ! i) else Inl IndexError)"

text \<open>Line 38.\<close>

definition mass :: real where
  "mass = 1"

text \<open>Line 34: the magnitude of the y component of the model's gravity vector.\<close>

definition g_of :: "real \<times> real \<times> real \<Rightarrow> real" where
  "g_of gravity = \<bar>fst (snd gravity)\<bar>"

subsection \<open>Lines 98 to 116: reading the solution\<close>

definition prelude ::
  "(real list \<Rightarrow> real list \<Rightarrow> real list) \<Rightarrow> 's solution \<Rightarrow> event list \<times> (error + 's vars)"
where
  "prelude spline2 solution =
    (let time = getTimeMat solution;
         tx = getStateMat solution ''/jointset/tx/tx/value'';
         ty = getStateMat solution ''/jointset/ty/ty/value''
     in case getitem (getMultiplierNames solution) 0 of
          Inl err \<Rightarrow> ([], Inl err)
        | Inr name \<Rightarrow>
            (let multiplier = map uminus (getMultiplierMat solution name);
                 accelx = spline2 time tx;
                 accely = spline2 time ty
             in ([Print_NumMultipliers (length (getMultiplierNames solution)),
                  Plot tx ty, Spline_Deriv2 time tx, Spline_Deriv2 time ty],
                 Inr \<lparr>time = time, tx = tx, ty = ty, multiplier = multiplier,
                      accelx = accelx, accely = accely,
                      statesTraj = exportToStatesTrajectory solution\<rparr>)))"

subsection \<open>Lines 121 to 141: one pass of the loop\<close>

text \<open>
  \<open>forceVizScale\<close> is the factor of line 133 and \<open>g\<close> the value of line 34. The matrix
  that \<open>calcPq\<close> fills is read through its accessor \<open>get\<close>, a function of row and
  column. The pass is only entered with \<open>itime\<close> below the size of the trajectory.
\<close>

definition loop_body ::
  "real \<Rightarrow> real \<Rightarrow> ('s \<Rightarrow> nat \<Rightarrow> nat \<Rightarrow> real) \<Rightarrow> 's vars \<Rightarrow> nat \<Rightarrow> event list \<times> error option"
where
  "loop_body forceVizScale g calcPq v itime =
    (let state = statesTraj v ! itime;
         constraintJacobian = calcPq state;
         jac = (constraintJacobian 0 0, constraintJacobian 1 0)
     in case getitem (multiplier v) itime of
          Inl err \<Rightarrow> ([CalcPq itime], Some err)
        | Inr m \<Rightarrow>
     (let constraintForces = (fst jac * m, snd jac * m);
          constraintForcesViz =
            (forceVizScale * fst constraintForces, forceVizScale * snd constraintForces)
      in case getitem (tx v) itime of
          Inl err \<Rightarrow> ([CalcPq itime], Some err)
        | Inr txi \<Rightarrow>
         (case getitem (ty v) itime of
          Inl err \<Rightarrow> ([CalcPq itime], Some err)
        | Inr tyi \<Rightarrow>
     (let arrow = Arrow txi tyi (fst constraintForcesViz) (snd constraintForcesViz)
      in case getitem (accelx v) itime of
          Inl err \<Rightarrow> ([CalcPq itime, arrow], Some err)
        | Inr ax \<Rightarrow>
     (let residualx = fst constraintForces - mass * ax
      in case getitem (accely v) itime of
          Inl err \<Rightarrow> ([CalcPq itime, arrow], Some err)
        | Inr ay \<Rightarrow>
     (let residualy = - mass * g + snd constraintForces - mass * ay
      in case getitem (time v) itime of
          Inl err \<Rightarrow> ([CalcPq itime, arrow], Some err)
        | Inr t \<Rightarrow>
            ([CalcPq itime, arrow, Print_Residuals t residualx residualy], None)))))))"

subsection \<open>Lines 119 to 143: the loop\<close>

text \<open>
  \<open>stride\<close> is the increment of line 143. With a stride of 0 and a non-empty
  trajectory the loop never ends: the result is then \<open>None\<close>. \<open>out\<close> holds the events
  emitted so far.
\<close>

partial_function (option) analysis_loop ::
  "nat \<Rightarrow> real \<Rightarrow> real \<Rightarrow> ('s \<Rightarrow> nat \<Rightarrow> nat \<Rightarrow> real) \<Rightarrow> 's vars \<Rightarrow> nat \<Rightarrow> event list
     \<Rightarrow> (event list \<times> error option) option"
where
  "analysis_loop stride forceVizScale g calcPq v itime out =
    (if itime < length (statesTraj v) then
       (case loop_body forceVizScale g calcPq v itime of
          (evs, Some err) \<Rightarrow> Some (out @ evs, Some err)
        | (evs, None) \<Rightarrow>
            analysis_loop stride forceVizScale g calcPq v (itime + stride) (out @ evs))
     else Some (out, None))"

subsection \<open>Lines 84 to 145: the script after the solve\<close>

text \<open>
  \<open>analysis\<close> is the branch of line 92 with the stride and the scale as parameters;
  \<open>script\<close> fixes them to the constants of the source, 10 and 0.010. \<open>pylab_ok\<close> and
  \<open>scipy_ok\<close> say whether the imports of lines 86 and 87 succeed.
\<close>

definition analysis ::
  "nat \<Rightarrow> real \<Rightarrow> real \<Rightarrow> (real list \<Rightarrow> real list \<Rightarrow> real list) \<Rightarrow> ('s \<Rightarrow> nat \<Rightarrow> nat \<Rightarrow> real)
     \<Rightarrow> 's solution \<Rightarrow> (event list \<times> error option) option"
where
  "analysis stride forceVizScale g spline2 calcPq solution =
    (case prelude spline2 solution of
       (evs, Inl err) \<Rightarrow> Some (evs, Some err)
     | (evs, Inr v) \<Rightarrow>
         (case analysis_loop stride forceVizScale g calcPq v 0 evs of
            None \<Rightarrow> None
          | Some (evs', Some err) \<Rightarrow> Some (evs', Some err)
          | Some (evs', None) \<Rightarrow> Some (evs' @ [Show], None)))"

definition script ::
  "bool \<Rightarrow> bool \<Rightarrow> real \<times> real \<times> real \<Rightarrow> (real list \<Rightarrow> real list \<Rightarrow> real list)
     \<Rightarrow> ('s \<Rightarrow> nat \<Rightarrow> nat \<Rightarrow> real) \<Rightarrow> 's solution \<Rightarrow> (event list \<times> error option) option"
where
  "script pylab_ok scipy_ok gravity spline2 calcPq solution =
    (let g = g_of gravity;
         has_pylab = (pylab_ok \<and> scipy_ok)
     in if has_pylab then analysis 10 (0.010) g spline2 calcPq solution
        else Some ([Print_Skipping], None))"

subsection \<open>Reading the events\<close>

text \<open>The values printed by line 140 and the arrows drawn by line 134, in order.\<close>

fun residuals_printed :: "event list \<Rightarrow> (real \<times> real \<times> real) list" where
  "residuals_printed [] = []"
| "residuals_printed (Print_Residuals t rx ry # evs) = (t, rx, ry) # residuals_printed evs"
| "residuals_printed (e # evs) = residuals_printed evs"

fun arrows_drawn :: "event list \<Rightarrow> (real \<times> real \<times> real \<times> real) list" where
  "arrows_drawn [] = []"
| "arrows_drawn (Arrow x y dx dy # evs) = (x, y, dx, dy) # arrows_drawn evs"
| "arrows_drawn (e # evs) = arrows_drawn evs"

text \<open>What a run printed as residuals, and the exception it ended with, if any.\<close>

definition printed_and_error ::
  "(event list \<times> error option) option \<Rightarrow> ((real \<times> real \<times> real) list \<times> error option) option" where
  "printed_and_error r = map_option (\<lambda>(evs, err). (residuals_printed evs, err)) r"

text \<open>A run without the count that line 102 prints.\<close>

fun without_count :: "event list \<Rightarrow> event list" where
  "without_count [] = []"
| "without_count (Print_NumMultipliers n # evs) = without_count evs"
| "without_count (e # evs) = e # without_count evs"

definition run_without_count ::
  "(event list \<times> error option) option \<Rightarrow> (event list \<times> error option) option" where
  "run_without_count r = map_option (\<lambda>(evs, err). (without_count evs, err)) r"

text \<open>
  The indices \<open>i, i + k, i + 2k, \<dots>\<close> below \<open>n\<close>, and the first index of that
  progression that is not below \<open>n\<close>.
\<close>

definition indices_from :: "nat \<Rightarrow> nat \<Rightarrow> nat \<Rightarrow> nat list" where
  "indices_from k n i = map (\<lambda>j. i + j * k) [0..<(n - i + k - 1) div k]"

definition first_after :: "nat \<Rightarrow> nat \<Rightarrow> nat \<Rightarrow> nat" where
  "first_after k n i = i + ((n - i + k - 1) div k) * k"

text \<open>The events of a pass of the loop in which every index is in range.\<close>

definition sample_events ::
  "real \<Rightarrow> real \<Rightarrow> ('s \<Rightarrow> nat \<Rightarrow> nat \<Rightarrow> real) \<Rightarrow> 's vars \<Rightarrow> nat \<Rightarrow> event list" where
  "sample_events s g c v i =
     [CalcPq i,
      Arrow (tx v ! i) (ty v ! i)
        (s * (c (statesTraj v ! i) 0 0 * multiplier v ! i))
        (s * (c (statesTraj v ! i) 1 0 * multiplier v ! i)),
      Print_Residuals (time v ! i)
        (c (statesTraj v ! i) 0 0 * multiplier v ! i - mass * accelx v ! i)
        (- mass * g + c (statesTraj v ! i) 1 0 * multiplier v ! i - mass * accely v ! i)]"

text \<open>
  What lines 98 to 116 bind and emit when the solution names at least one multiplier.
\<close>

definition bound_vars ::
  "(real list \<Rightarrow> real list \<Rightarrow> real list) \<Rightarrow> 's solution \<Rightarrow> 's vars" where
  "bound_vars spline2 solution =
    \<lparr>time = getTimeMat solution,
     tx = getStateMat solution ''/jointset/tx/tx/value'',
     ty = getStateMat solution ''/jointset/ty/ty/value'',
     multiplier = map uminus (getMultiplierMat solution (getMultiplierNames solution ! 0)),
     accelx = spline2 (getTimeMat solution) (getStateMat solution ''/jointset/tx/tx/value''),
     accely = spline2 (getTimeMat solution) (getStateMat solution ''/jointset/ty/ty/value''),
     statesTraj = exportToStatesTrajectory solution\<rparr>"

definition prelude_events ::
  "'s solution \<Rightarrow> event list" where
  "prelude_events solution =
    [Print_NumMultipliers (length (getMultiplierNames solution)),
     Plot (getStateMat solution ''/jointset/tx/tx/value'')
       (getStateMat solution ''/jointset/ty/ty/value''),
     Spline_Deriv2 (getTimeMat solution) (getStateMat solution ''/jointset/tx/tx/value''),
     Spline_Deriv2 (getTimeMat solution) (getStateMat solution ''/jointset/ty/ty/value'')]"

subsection \<open>A solved trajectory to run the script on\<close>

text \<open>
  Eleven samples on the parabola, \<open>tx = j\<close> and \<open>ty = j^2\<close> at time \<open>j\<close>, with the
  Jacobian \<open>[2 * tx, -1]\<close> of line 125 as a 2 by 1 matrix.
\<close>

definition parabola_Pq :: "real \<times> real \<Rightarrow> nat \<Rightarrow> nat \<Rightarrow> real" where
  "parabola_Pq state i j = [[2 * fst state], [- 1]] ! i ! j"

definition example_vars :: "(real \<times> real) vars" where
  "example_vars =
    \<lparr>time = map real [0..<11], tx = map real [0..<11], ty = map (\<lambda>j. (real j)\<^sup>2) [0..<11],
     multiplier = map (\<lambda>j. real j + 1) [0..<11],
     accelx = replicate 11 0, accely = replicate 11 2,
     statesTraj = map (\<lambda>j. (real j, (real j)\<^sup>2)) [0..<11]\<rparr>"

text \<open>
  The same trajectory as a solution with one multiplier, and a stand-in for the
  spline's second derivative.
\<close>

definition example_solution :: "(real \<times> real) solution" where
  "example_solution =
    \<lparr>getTimeMat = map real [0..<11],
     getStateMat = (\<lambda>name. if name = ''/jointset/tx/tx/value'' then map real [0..<11]
        else map (\<lambda>j. (real j)\<^sup>2) [0..<11]),
     getMultiplierNames = [''lambda_cid2_p0''],
     getMultiplierMat = (\<lambda>name. map (\<lambda>j. - (real j + 1)) [0..<11]),
     exportToStatesTrajectory = map (\<lambda>j. (real j, (real j)\<^sup>2)) [0..<11]\<rparr>"

definition example_spline2 :: "real list \<Rightarrow> real list \<Rightarrow> real list" where
  "example_spline2 ts v = map (\<lambda>t. 2) ts"


text \<open>The same solution with a second multiplier series.\<close>

definition extra_solution :: "(real \<times> real) solution" where
  "extra_solution = example_solution
     \<lparr>getMultiplierNames := [''lambda_cid2_p0'', ''lambda_cid3_p0''],
      getMultiplierMat := (\<lambda>name. if name = ''lambda_cid2_p0''
         then map (\<lambda>j. - (real j + 1)) [0..<11] else replicate 11 7)\<rparr>"

section \<open>Properties\<close>

subsection \<open>The events of one pass and of the loop\<close>

lemma residuals_printed_append:
  "residuals_printed (xs @ ys) = residuals_printed xs @ residuals_printed ys"
  by (induction xs rule: residuals_printed.induct) simp_all

lemma arrows_drawn_append:
  "arrows_drawn (xs @ ys) = arrows_drawn xs @ arrows_drawn ys"
  by (induction xs rule: arrows_drawn.induct) simp_all

lemma loop_body_ok:
  assumes "i < length (multiplier v)" "i < length (tx v)" "i < length (ty v)"
    "i < length (accelx v)" "i < length (accely v)" "i < length (time v)"
  shows "loop_body s g c v i = (sample_events s g c v i, None)"
  using assms by (simp add: loop_body_def getitem_def sample_events_def Let_def)

lemma loop_body_short:
  assumes "length (multiplier v) \<le> i"
  shows "loop_body s g c v i = ([CalcPq i], Some IndexError)"
  using assms by (simp add: loop_body_def getitem_def Let_def)

lemma div_add_self_Suc:
  "0 < (k::nat) \<Longrightarrow> (x + k) div k = Suc (x div k)"
  using div_add_self2 [of k x] by (simp del: div_add_self2)

lemma ceil_div_step:
  assumes "0 < (k::nat)" "i < n"
  shows "(n - i + k - 1) div k = Suc ((n - (i + k) + k - 1) div k)"
proof (cases "i + k \<le> n")
  case True
  then obtain m where m: "n = i + k + m"
    using le_Suc_ex by blast
  have l: "n - i + k - 1 = (m + k - 1) + k"
    using assms(1) m by linarith
  have r: "n - (i + k) + k - 1 = m + k - 1"
    using m by linarith
  have "((m + k - 1) + k) div k = Suc ((m + k - 1) div k)"
    by (rule div_add_self_Suc [OF assms(1)])
  then show ?thesis
    by (simp only: l r)
next
  case False
  define d where "d = n - Suc i"
  have d: "n = i + Suc d"
    using assms(2) by (simp add: d_def)
  have dk: "d < k" using False d by linarith
  have l: "n - i + k - 1 = d + k"
    using d by linarith
  have r: "n - (i + k) + k - 1 = k - 1"
    using False by linarith
  have "(d + k) div k = Suc (d div k)"
    by (rule div_add_self_Suc [OF assms(1)])
  moreover have "d div k = 0" using dk by (rule div_less)
  moreover have "(k - 1) div k = 0" using assms(1) by (intro div_less) linarith
  ultimately show ?thesis
    by (simp only: l r)
qed

lemma indices_from_step:
  assumes "0 < k" "i < n"
  shows "indices_from k n i = i # indices_from k n (i + k)"
proof -
  have "map (\<lambda>j. i + j * k) [0..<Suc c] = i # map (\<lambda>j. i + k + j * k) [0..<c]" for c
  proof -
    have "[0..<Suc c] = 0 # map Suc [0..<c]"
      by (simp only: upt_conv_Cons [OF zero_less_Suc] map_Suc_upt)
    then show ?thesis by (simp add: comp_def add.assoc)
  qed
  then show ?thesis
    unfolding indices_from_def ceil_div_step [OF assms] .
qed

lemma indices_from_done:
  assumes "0 < k" "n \<le> i"
  shows "indices_from k n i = []"
  using assms by (simp add: indices_from_def)

lemma first_after_step:
  assumes "0 < k" "i < n"
  shows "first_after k n i = first_after k n (i + k)"
  unfolding first_after_def ceil_div_step [OF assms] by simp

lemma first_after_done:
  assumes "0 < k" "n \<le> i"
  shows "first_after k n i = i"
  using assms by (simp add: first_after_def)

lemma analysis_loop_run:
  assumes k: "0 < k"
    and m: "length (multiplier v) \<le> length (statesTraj v)"
    and lens: "length (statesTraj v) \<le> length (tx v)" "length (statesTraj v) \<le> length (ty v)"
      "length (statesTraj v) \<le> length (accelx v)" "length (statesTraj v) \<le> length (accely v)"
      "length (statesTraj v) \<le> length (time v)"
  shows "analysis_loop k s g c v i out =
    Some (out @ concat (map (sample_events s g c v) (indices_from k (length (multiplier v)) i))
            @ (if first_after k (length (multiplier v)) i < length (statesTraj v)
               then [CalcPq (first_after k (length (multiplier v)) i)] else []),
          if first_after k (length (multiplier v)) i < length (statesTraj v)
          then Some IndexError else None)"
proof (induction "length (statesTraj v) - i" arbitrary: i out rule: less_induct)
  case less
  show ?case
  proof (cases "i < length (multiplier v)")
    case True
    have b: "loop_body s g c v i = (sample_events s g c v i, None)"
      using True m lens by (intro loop_body_ok) linarith+
    have iN: "i < length (statesTraj v)" using True m by linarith
    have "length (statesTraj v) - (i + k) < length (statesTraj v) - i"
      using iN k by linarith
    note IH = less [OF this]
    show ?thesis
      by (subst analysis_loop.simps)
        (simp add: iN b IH indices_from_step [OF k True] first_after_step [OF k True])
  next
    case False
    then have L: "length (multiplier v) \<le> i" by simp
    have b: "loop_body s g c v i = ([CalcPq i], Some IndexError)"
      using L by (rule loop_body_short)
    show ?thesis
      by (subst analysis_loop.simps)
        (simp add: b indices_from_done [OF k L] first_after_done [OF k L])
  qed
qed

lemma first_after_ge:
  assumes "0 < k"
  shows "n \<le> first_after k n i"
proof (induction "n - i" arbitrary: i rule: less_induct)
  case less
  show ?case
  proof (cases "i < n")
    case True
    then have "n - (i + k) < n - i" using assms by linarith
    from less [OF this] show ?thesis
      by (simp only: first_after_step [OF assms True])
  next
    case False
    then show ?thesis using assms by (simp add: first_after_done)
  qed
qed

lemma analysis_loop_complete:
  assumes "0 < k"
    and "length (multiplier v) = length (statesTraj v)"
    and "length (tx v) = length (statesTraj v)" "length (ty v) = length (statesTraj v)"
    and "length (accelx v) = length (statesTraj v)" "length (accely v) = length (statesTraj v)"
    and "length (time v) = length (statesTraj v)"
  shows "analysis_loop k s g c v i out =
    Some (out @ concat (map (sample_events s g c v) (indices_from k (length (statesTraj v)) i)),
          None)"
proof -
  have "\<not> first_after k (length (multiplier v)) i < length (statesTraj v)"
    using first_after_ge [OF assms(1), of "length (multiplier v)" i] assms(2) by simp
  moreover note analysis_loop_run [of k v s g c i out]
  ultimately show ?thesis using assms by simp
qed

lemma residuals_printed_samples:
  "residuals_printed (concat (map (sample_events s g c v) is)) =
     map (\<lambda>i. (time v ! i,
               c (statesTraj v ! i) 0 0 * multiplier v ! i - mass * accelx v ! i,
               - mass * g + c (statesTraj v ! i) 1 0 * multiplier v ! i - mass * accely v ! i)) is"
  by (induction "is") (simp_all add: sample_events_def)

lemma arrows_drawn_samples:
  "arrows_drawn (concat (map (sample_events s g c v) is)) =
     map (\<lambda>i. (tx v ! i, ty v ! i,
               s * (c (statesTraj v ! i) 0 0 * multiplier v ! i),
               s * (c (statesTraj v ! i) 1 0 * multiplier v ! i))) is"
  by (induction "is") (simp_all add: sample_events_def)

lemma ceiling_div_nat:
  assumes "0 < (k::nat)"
  shows "nat \<lceil>real n / real k\<rceil> = (n + k - 1) div k"
proof -
  define q where "q = (n + k - 1) div k"
  define r where "r = (n + k - 1) mod k"
  have qr: "q * k + r = n + k - 1"
    unfolding q_def r_def by (rule div_mult_mod_eq)
  have rk: "r < k"
    unfolding r_def using assms by (rule mod_less_divisor)
  have a: "n \<le> q * k" using qr rk by linarith
  have b: "q * k < n + k" using qr assms by linarith
  have a': "real n \<le> real q * real k"
    using a by (metis of_nat_le_iff of_nat_mult)
  have b': "real q * real k < real n + real k"
    using b by (metis of_nat_less_iff of_nat_mult of_nat_add)
  have kpos: "0 < real k" using assms by simp
  have u: "real n / real k \<le> of_int (int q)"
    using a' kpos by (simp add: pos_divide_le_eq)
  have "(real q - 1) * real k < real n"
    using b' by (simp add: left_diff_distrib)
  then have l: "of_int (int q) - 1 < real n / real k"
    using kpos by (simp add: pos_less_divide_eq)
  have "\<lceil>real n / real k\<rceil> = int q"
    using l u by (rule ceiling_unique)
  then show ?thesis by (simp add: q_def)
qed

lemma prelude_ok:
  assumes "getMultiplierNames solution \<noteq> []"
  shows "prelude spline2 solution = (prelude_events solution, Inr (bound_vars spline2 solution))"
  using assms
  by (simp add: prelude_def getitem_def Let_def prelude_events_def bound_vars_def)

lemma prelude_empty:
  assumes "getMultiplierNames solution = []"
  shows "prelude spline2 solution = ([], Inl IndexError)"
  using assms by (simp add: prelude_def getitem_def Let_def)

lemma analysis_complete:
  assumes "0 < k"
    and "getMultiplierNames solution \<noteq> []"
    and "length (multiplier (bound_vars spline2 solution)) = length (statesTraj (bound_vars spline2 solution))"
    and "length (tx (bound_vars spline2 solution)) = length (statesTraj (bound_vars spline2 solution))"
      "length (ty (bound_vars spline2 solution)) = length (statesTraj (bound_vars spline2 solution))"
    and "length (accelx (bound_vars spline2 solution)) = length (statesTraj (bound_vars spline2 solution))"
      "length (accely (bound_vars spline2 solution)) = length (statesTraj (bound_vars spline2 solution))"
    and "length (time (bound_vars spline2 solution)) = length (statesTraj (bound_vars spline2 solution))"
  shows "analysis k s g spline2 c solution =
    Some (prelude_events solution
            @ concat (map (sample_events s g c (bound_vars spline2 solution))
                (indices_from k (length (statesTraj (bound_vars spline2 solution))) 0))
            @ [Show], None)"
  by (simp add: analysis_def prelude_ok [OF assms(2)]
      analysis_loop_complete [OF assms(1) assms(3-8)])

lemma residuals_printed_prelude:
  "residuals_printed (prelude_events solution) = []"
  by (simp add: prelude_events_def)

lemma example_solution_lengths:
  "getMultiplierNames example_solution \<noteq> []"
  "length (multiplier (bound_vars example_spline2 example_solution)) =
     length (statesTraj (bound_vars example_spline2 example_solution))"
  "length (tx (bound_vars example_spline2 example_solution)) =
     length (statesTraj (bound_vars example_spline2 example_solution))"
  "length (ty (bound_vars example_spline2 example_solution)) =
     length (statesTraj (bound_vars example_spline2 example_solution))"
  "length (accelx (bound_vars example_spline2 example_solution)) =
     length (statesTraj (bound_vars example_spline2 example_solution))"
  "length (accely (bound_vars example_spline2 example_solution)) =
     length (statesTraj (bound_vars example_spline2 example_solution))"
  "length (time (bound_vars example_spline2 example_solution)) =
     length (statesTraj (bound_vars example_spline2 example_solution))"
  by (simp_all add: bound_vars_def example_solution_def example_spline2_def)

lemma example_solution_indices:
  "indices_from 10 (length (statesTraj (bound_vars example_spline2 example_solution))) 0 = [0, 10]"
proof -
  have u: "[0..<2] = [0, Suc 0]"
    by (simp add: numeral_2_eq_2)
  show ?thesis
    by (simp add: indices_from_def bound_vars_def example_solution_def u)
qed

lemma loop_body_scale:
  "snd (loop_body s1 g c v i) = snd (loop_body s2 g c v i) \<and>
   residuals_printed (fst (loop_body s1 g c v i)) = residuals_printed (fst (loop_body s2 g c v i))"
  by (simp add: loop_body_def getitem_def Let_def)

lemma analysis_loop_scale:
  assumes k: "0 < k"
  shows "residuals_printed out1 = residuals_printed out2 \<Longrightarrow>
    printed_and_error (analysis_loop k s1 g c v i out1) =
    printed_and_error (analysis_loop k s2 g c v i out2)"
proof (induction "length (statesTraj v) - i" arbitrary: i out1 out2 rule: less_induct)
  case less
  show ?case
  proof (cases "i < length (statesTraj v)")
    case True
    obtain e1 r1 where b1: "loop_body s1 g c v i = (e1, r1)" by (cases "loop_body s1 g c v i")
    obtain e2 r2 where b2: "loop_body s2 g c v i = (e2, r2)" by (cases "loop_body s2 g c v i")
    from loop_body_scale [of s1 g c v i s2] have rr: "r1 = r2"
      and ee: "residuals_printed e1 = residuals_printed e2"
      by (simp_all add: b1 b2)
    have oo: "residuals_printed (out1 @ e1) = residuals_printed (out2 @ e2)"
      by (simp add: residuals_printed_append less.prems ee)
    show ?thesis
    proof (cases r2)
      case None
      have "length (statesTraj v) - (i + k) < length (statesTraj v) - i"
        using True k by linarith
      from less.hyps [OF this oo] show ?thesis
        by (subst (1 2) analysis_loop.simps) (simp add: True b1 b2 rr None)
    next
      case (Some err)
      show ?thesis
        by (subst (1 2) analysis_loop.simps)
          (simp add: True b1 b2 rr Some printed_and_error_def oo)
    qed
  next
    case False
    then show ?thesis
      by (subst (1 2) analysis_loop.simps) (simp add: printed_and_error_def less.prems)
  qed
qed

lemma printed_and_error_finish:
  "printed_and_error
     (case r of None \<Rightarrow> None
      | Some (evs', Some err) \<Rightarrow> Some (evs', Some err)
      | Some (evs', None) \<Rightarrow> Some (evs' @ [Show], None)) = printed_and_error r"
  by (simp add: printed_and_error_def residuals_printed_append split: option.splits prod.splits)




lemma without_count_append:
  "without_count (xs @ ys) = without_count xs @ without_count ys"
  by (induction xs rule: without_count.induct) simp_all

lemma analysis_loop_out:
  assumes k: "0 < k"
  shows "analysis_loop k s g c v i out =
    map_option (\<lambda>(evs, err). (out @ evs, err)) (analysis_loop k s g c v i [])"
proof (induction "length (statesTraj v) - i" arbitrary: i out rule: less_induct)
  case less
  show ?case
  proof (cases "i < length (statesTraj v)")
    case True
    obtain e r where b: "loop_body s g c v i = (e, r)" by (cases "loop_body s g c v i")
    show ?thesis
    proof (cases r)
      case None
      have d: "length (statesTraj v) - (i + k) < length (statesTraj v) - i"
        using True k by linarith
      have 1: "analysis_loop k s g c v (i + k) (out @ e) =
          map_option (\<lambda>(evs, err). ((out @ e) @ evs, err)) (analysis_loop k s g c v (i + k) [])"
        by (rule less [OF d])
      have 2: "analysis_loop k s g c v (i + k) e =
          map_option (\<lambda>(evs, err). (e @ evs, err)) (analysis_loop k s g c v (i + k) [])"
        by (rule less [OF d])
      show ?thesis
        by (subst (1 2) analysis_loop.simps)
          (simp add: True b None 1 2 option.map_comp comp_def case_prod_unfold)
    next
      case (Some err)
      show ?thesis
        by (subst (1 2) analysis_loop.simps) (simp add: True b Some)
    qed
  next
    case False
    then show ?thesis
      by (subst (1 2) analysis_loop.simps) simp
  qed
qed

lemma without_count_prelude:
  "without_count (prelude_events solution) =
    [Plot (getStateMat solution ''/jointset/tx/tx/value'')
       (getStateMat solution ''/jointset/ty/ty/value''),
     Spline_Deriv2 (getTimeMat solution) (getStateMat solution ''/jointset/tx/tx/value''),
     Spline_Deriv2 (getTimeMat solution) (getStateMat solution ''/jointset/ty/ty/value'')]"
  by (simp add: prelude_events_def)

lemma run_without_count_analysis:
  assumes "0 < k" "getMultiplierNames solution \<noteq> []"
  shows "run_without_count (analysis k s g spline2 c solution) =
    map_option (\<lambda>(evs, err). (without_count (prelude_events solution) @ without_count evs
        @ (case err of None \<Rightarrow> [Show] | Some e \<Rightarrow> []), err))
      (analysis_loop k s g c (bound_vars spline2 solution) 0 [])"
  by (simp add: analysis_def prelude_ok [OF assms(2)]
      analysis_loop_out [OF assms(1), of _ _ _ _ _ "prelude_events solution"]
      run_without_count_def without_count_append
      split: option.splits prod.splits)

lemma indices_from_less:
  assumes k: "0 < k"
  shows "i \<in> set (indices_from k n i0) \<Longrightarrow> i < n"
proof (induction "n - i0" arbitrary: i0 rule: less_induct)
  case less
  show ?case
  proof (cases "i0 < n")
    case True
    have d: "n - (i0 + k) < n - i0" using True k by linarith
    from less.prems have "i = i0 \<or> i \<in> set (indices_from k n (i0 + k))"
      by (simp add: indices_from_step [OF k True])
    then show ?thesis
      using True less.hyps [OF d] by blast
  next
    case False
    then have "indices_from k n i0 = []"
      using k by (simp add: indices_from_done)
    with less.prems show ?thesis by simp
  qed
qed

lemma arrows_drawn_prelude:
  "arrows_drawn (prelude_events solution) = []"
  by (simp add: prelude_events_def)

subsection \<open>The residual\<close>

text \<open>
  Claim C1. When every series has the length of the trajectory, the loop ends without
  an exception, and the values it prints are, for the analysed indices \<open>i\<close> in order,
  the time of the sample, \<open>F.x - mass * accelx[i]\<close> and
  \<open>- mass * g + F.y - mass * accely[i]\<close>, where \<open>F\<close> is the Jacobian at the state of
  index \<open>i\<close> times \<open>multiplier[i]\<close>. Gravity enters the second component only.
\<close>

theorem residual_formula:
  assumes "0 < stride"
    and "length (multiplier v) = length (statesTraj v)"
    and "length (tx v) = length (statesTraj v)" "length (ty v) = length (statesTraj v)"
    and "length (accelx v) = length (statesTraj v)" "length (accely v) = length (statesTraj v)"
    and "length (time v) = length (statesTraj v)"
  shows "\<exists>evs. analysis_loop stride forceVizScale g calcPq v 0 [] = Some (evs, None) \<and>
    residuals_printed evs =
      map (\<lambda>i. (time v ! i,
                calcPq (statesTraj v ! i) 0 0 * multiplier v ! i - mass * accelx v ! i,
                - mass * g + calcPq (statesTraj v ! i) 1 0 * multiplier v ! i
                  - mass * accely v ! i))
        (indices_from stride (length (statesTraj v)) 0)"
  by (simp add: analysis_loop_complete [OF assms] residuals_printed_samples)

theorem residual_formula_witness:
  "0 < (10::nat) \<and>
   length (multiplier example_vars) = length (statesTraj example_vars) \<and>
   length (tx example_vars) = length (statesTraj example_vars) \<and>
   length (ty example_vars) = length (statesTraj example_vars) \<and>
   length (accelx example_vars) = length (statesTraj example_vars) \<and>
   length (accely example_vars) = length (statesTraj example_vars) \<and>
   length (time example_vars) = length (statesTraj example_vars) \<and>
   (\<exists>evs. analysis_loop 10 0.010 9.8 parabola_Pq example_vars 0 [] = Some (evs, None) \<and>
      residuals_printed evs = [(0, 0, - 12.8), (10, 220, - 22.8)])"
proof -
  have l: "length (multiplier example_vars) = length (statesTraj example_vars)"
    "length (tx example_vars) = length (statesTraj example_vars)"
    "length (ty example_vars) = length (statesTraj example_vars)"
    "length (accelx example_vars) = length (statesTraj example_vars)"
    "length (accely example_vars) = length (statesTraj example_vars)"
    "length (time example_vars) = length (statesTraj example_vars)"
    by (simp_all add: example_vars_def)
  have u: "[0..<2] = [0, Suc 0]"
    by (simp add: numeral_2_eq_2)
  have i: "indices_from 10 (length (statesTraj example_vars)) 0 = [0, 10]"
    by (simp add: indices_from_def example_vars_def u)
  have k: "0 < (10::nat)" by simp
  from residual_formula [OF k l, of "0.010" "9.8" parabola_Pq]
  obtain evs where e: "analysis_loop 10 0.010 9.8 parabola_Pq example_vars 0 [] = Some (evs, None)"
    and r: "residuals_printed evs =
      map (\<lambda>i. (time example_vars ! i,
                parabola_Pq (statesTraj example_vars ! i) 0 0 * multiplier example_vars ! i
                  - mass * accelx example_vars ! i,
                - mass * 9.8 + parabola_Pq (statesTraj example_vars ! i) 1 0 * multiplier example_vars ! i
                  - mass * accely example_vars ! i))
        (indices_from 10 (length (statesTraj example_vars)) 0)"
    by blast
  have h: "residuals_printed evs = [(0, 0, - 12.8), (10, 220, - 22.8)]"
    unfolding r i by (simp add: example_vars_def parabola_Pq_def mass_def)
  show ?thesis
    by (intro conjI exI [of _ evs]) (rule k l e h)+
qed

subsection \<open>The sign of the multiplier\<close>

text \<open>
  Claim C2. Line 101 negates the multiplier series that the solution reports. In a run
  of the script on a solution whose series have the length of the trajectory, the
  force drawn at each analysed index is the Jacobian times the negated reported
  multiplier, \<open>F = J * (- lambda)\<close>, scaled by 0.010, and the residuals are printed
  with the same force written as \<open>F = - (J * lambda)\<close>.
\<close>

theorem reported_multiplier_negated:
  assumes "getMultiplierNames solution \<noteq> []"
    and "length (multiplier (bound_vars spline2 solution)) = length (statesTraj (bound_vars spline2 solution))"
    and "length (tx (bound_vars spline2 solution)) = length (statesTraj (bound_vars spline2 solution))"
      "length (ty (bound_vars spline2 solution)) = length (statesTraj (bound_vars spline2 solution))"
    and "length (accelx (bound_vars spline2 solution)) = length (statesTraj (bound_vars spline2 solution))"
      "length (accely (bound_vars spline2 solution)) = length (statesTraj (bound_vars spline2 solution))"
    and "length (time (bound_vars spline2 solution)) = length (statesTraj (bound_vars spline2 solution))"
  shows "\<exists>evs. script True True gravity spline2 calcPq solution = Some (evs, None) \<and>
    arrows_drawn evs =
      map (\<lambda>i. (getStateMat solution ''/jointset/tx/tx/value'' ! i,
                getStateMat solution ''/jointset/ty/ty/value'' ! i,
                0.010 * (calcPq (exportToStatesTrajectory solution ! i) 0 0
                  * - (getMultiplierMat solution (getMultiplierNames solution ! 0) ! i)),
                0.010 * (calcPq (exportToStatesTrajectory solution ! i) 1 0
                  * - (getMultiplierMat solution (getMultiplierNames solution ! 0) ! i))))
        (indices_from 10 (length (exportToStatesTrajectory solution)) 0) \<and>
    residuals_printed evs =
      map (\<lambda>i. (getTimeMat solution ! i,
                - (calcPq (exportToStatesTrajectory solution ! i) 0 0
                    * getMultiplierMat solution (getMultiplierNames solution ! 0) ! i)
                  - mass * accelx (bound_vars spline2 solution) ! i,
                - mass * g_of gravity
                  - calcPq (exportToStatesTrajectory solution ! i) 1 0
                    * getMultiplierMat solution (getMultiplierNames solution ! 0) ! i
                  - mass * accely (bound_vars spline2 solution) ! i))
        (indices_from 10 (length (exportToStatesTrajectory solution)) 0)"
proof -
  let ?v = "bound_vars spline2 solution"
  let ?is = "indices_from 10 (length (exportToStatesTrajectory solution)) 0"
  have k: "0 < (10::nat)" by simp
  have s: "script True True gravity spline2 calcPq solution =
      analysis 10 0.010 (g_of gravity) spline2 calcPq solution"
    by (simp add: script_def)
  have N: "length (statesTraj ?v) = length (exportToStatesTrajectory solution)"
    by (simp add: bound_vars_def)
  have L: "length (getMultiplierMat solution (getMultiplierNames solution ! 0)) =
      length (exportToStatesTrajectory solution)"
    using assms(2) by (simp add: bound_vars_def)
  have m: "multiplier ?v ! i = - (getMultiplierMat solution (getMultiplierNames solution ! 0) ! i)"
    if "i \<in> set ?is" for i
  proof -
    have "i < length (getMultiplierMat solution (getMultiplierNames solution ! 0))"
      using indices_from_less [OF k that] L by simp
    then show ?thesis by (simp add: bound_vars_def)
  qed
  have f: "tx ?v = getStateMat solution ''/jointset/tx/tx/value''"
    "ty ?v = getStateMat solution ''/jointset/ty/ty/value''"
    "time ?v = getTimeMat solution" "statesTraj ?v = exportToStatesTrajectory solution"
    by (simp_all add: bound_vars_def)
  have a: "arrows_drawn (concat (map (sample_events 0.010 (g_of gravity) calcPq ?v) ?is)) =
      map (\<lambda>i. (getStateMat solution ''/jointset/tx/tx/value'' ! i,
                getStateMat solution ''/jointset/ty/ty/value'' ! i,
                0.010 * (calcPq (exportToStatesTrajectory solution ! i) 0 0
                  * - (getMultiplierMat solution (getMultiplierNames solution ! 0) ! i)),
                0.010 * (calcPq (exportToStatesTrajectory solution ! i) 1 0
                  * - (getMultiplierMat solution (getMultiplierNames solution ! 0) ! i)))) ?is"
    unfolding arrows_drawn_samples f
    by (rule map_cong [OF refl]) (simp add: m)
  have r: "residuals_printed (concat (map (sample_events 0.010 (g_of gravity) calcPq ?v) ?is)) =
      map (\<lambda>i. (getTimeMat solution ! i,
                - (calcPq (exportToStatesTrajectory solution ! i) 0 0
                    * getMultiplierMat solution (getMultiplierNames solution ! 0) ! i)
                  - mass * accelx ?v ! i,
                - mass * g_of gravity
                  - calcPq (exportToStatesTrajectory solution ! i) 1 0
                    * getMultiplierMat solution (getMultiplierNames solution ! 0) ! i
                  - mass * accely ?v ! i)) ?is"
    unfolding residuals_printed_samples f
    by (rule map_cong [OF refl]) (simp add: m)
  define evs where "evs = prelude_events solution
    @ concat (map (sample_events 0.010 (g_of gravity) calcPq ?v) ?is) @ [Show]"
  have e: "script True True gravity spline2 calcPq solution = Some (evs, None)"
    unfolding s analysis_complete [OF k assms] N evs_def ..
  have A: "arrows_drawn evs = arrows_drawn (concat (map (sample_events 0.010 (g_of gravity) calcPq ?v) ?is))"
    unfolding evs_def by (simp add: arrows_drawn_append arrows_drawn_prelude)
  have R: "residuals_printed evs = residuals_printed (concat (map (sample_events 0.010 (g_of gravity) calcPq ?v) ?is))"
    unfolding evs_def by (simp add: residuals_printed_append residuals_printed_prelude)
  show ?thesis
    by (intro exI [of _ evs] conjI) (rule e A [unfolded a] R [unfolded r])+
qed

theorem reported_multiplier_negated_witness:
  "getMultiplierNames example_solution \<noteq> [] \<and>
   length (multiplier (bound_vars example_spline2 example_solution)) =
     length (statesTraj (bound_vars example_spline2 example_solution)) \<and>
   length (tx (bound_vars example_spline2 example_solution)) =
     length (statesTraj (bound_vars example_spline2 example_solution)) \<and>
   length (ty (bound_vars example_spline2 example_solution)) =
     length (statesTraj (bound_vars example_spline2 example_solution)) \<and>
   length (accelx (bound_vars example_spline2 example_solution)) =
     length (statesTraj (bound_vars example_spline2 example_solution)) \<and>
   length (accely (bound_vars example_spline2 example_solution)) =
     length (statesTraj (bound_vars example_spline2 example_solution)) \<and>
   length (time (bound_vars example_spline2 example_solution)) =
     length (statesTraj (bound_vars example_spline2 example_solution)) \<and>
   getMultiplierMat example_solution (getMultiplierNames example_solution ! 0) ! 10 = - 11 \<and>
   (\<exists>evs. script True True (0, - 9.80665, 0) example_spline2 parabola_Pq example_solution
        = Some (evs, None) \<and>
      arrows_drawn evs = [(0, 0, 0, - 0.01), (10, 100, 2.2, - 0.11)] \<and>
      residuals_printed evs = [(0, - 2, - 12.80665), (10, 218, - 22.80665)])"
proof -
  note l = example_solution_lengths
  have i: "indices_from 10 (length (exportToStatesTrajectory example_solution)) 0 = [0, 10]"
    using example_solution_indices by (simp add: bound_vars_def)
  have m: "getMultiplierMat example_solution (getMultiplierNames example_solution ! 0) ! 10 = - 11"
    by (simp add: example_solution_def)
  from reported_multiplier_negated [OF l, of "(0, - 9.80665, 0)" parabola_Pq]
  obtain evs where e: "script True True (0, - 9.80665, 0) example_spline2 parabola_Pq
        example_solution = Some (evs, None)"
    and a: "arrows_drawn evs =
      map (\<lambda>i. (getStateMat example_solution ''/jointset/tx/tx/value'' ! i,
                getStateMat example_solution ''/jointset/ty/ty/value'' ! i,
                0.010 * (parabola_Pq (exportToStatesTrajectory example_solution ! i) 0 0
                  * - (getMultiplierMat example_solution (getMultiplierNames example_solution ! 0) ! i)),
                0.010 * (parabola_Pq (exportToStatesTrajectory example_solution ! i) 1 0
                  * - (getMultiplierMat example_solution (getMultiplierNames example_solution ! 0) ! i))))
        (indices_from 10 (length (exportToStatesTrajectory example_solution)) 0)"
    and r: "residuals_printed evs =
      map (\<lambda>i. (getTimeMat example_solution ! i,
                - (parabola_Pq (exportToStatesTrajectory example_solution ! i) 0 0
                    * getMultiplierMat example_solution (getMultiplierNames example_solution ! 0) ! i)
                  - mass * accelx (bound_vars example_spline2 example_solution) ! i,
                - mass * g_of (0, - 9.80665, 0)
                  - parabola_Pq (exportToStatesTrajectory example_solution ! i) 1 0
                    * getMultiplierMat example_solution (getMultiplierNames example_solution ! 0) ! i
                  - mass * accely (bound_vars example_spline2 example_solution) ! i))
        (indices_from 10 (length (exportToStatesTrajectory example_solution)) 0)"
    by blast
  have a': "arrows_drawn evs = [(0, 0, 0, - 0.01), (10, 100, 2.2, - 0.11)]"
    unfolding a i
    by (simp add: example_solution_def parabola_Pq_def)
  have r': "residuals_printed evs = [(0, - 2, - 12.80665), (10, 218, - 22.80665)]"
    unfolding r i
    by (simp add: bound_vars_def example_solution_def example_spline2_def parabola_Pq_def
        mass_def g_of_def)
  show ?thesis
    by (intro conjI exI [of _ evs]) (rule l m e a' r')+
qed

subsection \<open>The stride\<close>

text \<open>
  Claim C5. With a positive stride \<open>k\<close> (10 in the source) and a trajectory of length
  \<open>N\<close>, the loop prints exactly \<open>ceil(N / k)\<close> samples, and their times are
  \<open>time[0], time[k], time[2k], \<dots>\<close> in this order.
\<close>

theorem stride_samples:
  assumes "0 < stride"
    and "length (multiplier v) = length (statesTraj v)"
    and "length (tx v) = length (statesTraj v)" "length (ty v) = length (statesTraj v)"
    and "length (accelx v) = length (statesTraj v)" "length (accely v) = length (statesTraj v)"
    and "length (time v) = length (statesTraj v)"
  shows "\<exists>evs. analysis_loop stride forceVizScale g calcPq v 0 [] = Some (evs, None) \<and>
    length (residuals_printed evs) = nat \<lceil>real (length (statesTraj v)) / real stride\<rceil> \<and>
    map fst (residuals_printed evs) =
      map (\<lambda>j. time v ! (j * stride))
        [0..<nat \<lceil>real (length (statesTraj v)) / real stride\<rceil>]"
proof -
  define n where "n = nat \<lceil>real (length (statesTraj v)) / real stride\<rceil>"
  define evs where "evs = concat (map (sample_events forceVizScale g calcPq v)
    (indices_from stride (length (statesTraj v)) 0))"
  have c: "(length (statesTraj v) - 0 + stride - 1) div stride = n"
    unfolding n_def using ceiling_div_nat [OF assms(1), of "length (statesTraj v)"] by simp
  have i: "indices_from stride (length (statesTraj v)) 0 = map (\<lambda>j. j * stride) [0..<n]"
    unfolding indices_from_def c by simp
  have e: "analysis_loop stride forceVizScale g calcPq v 0 [] = Some (evs, None)"
    unfolding evs_def by (simp add: analysis_loop_complete [OF assms])
  have r: "map fst (residuals_printed evs) = map (\<lambda>j. time v ! (j * stride)) [0..<n]"
    unfolding evs_def residuals_printed_samples i by (simp add: comp_def)
  have "length (map fst (residuals_printed evs)) = n"
    unfolding r by simp
  then have l: "length (residuals_printed evs) = n" by simp
  show ?thesis
    unfolding n_def [symmetric] by (intro exI [of _ evs] conjI) (rule e l r)+
qed

theorem stride_samples_witness:
  "0 < (10::nat) \<and>
   length (multiplier example_vars) = length (statesTraj example_vars) \<and>
   length (tx example_vars) = length (statesTraj example_vars) \<and>
   length (ty example_vars) = length (statesTraj example_vars) \<and>
   length (accelx example_vars) = length (statesTraj example_vars) \<and>
   length (accely example_vars) = length (statesTraj example_vars) \<and>
   length (time example_vars) = length (statesTraj example_vars) \<and>
   length (statesTraj example_vars) = 11 \<and>
   (\<exists>evs. analysis_loop 10 0.010 9.8 parabola_Pq example_vars 0 [] = Some (evs, None) \<and>
      length (residuals_printed evs) = 2 \<and>
      map fst (residuals_printed evs) = [time example_vars ! 0, time example_vars ! 10])"
proof -
  have l: "length (multiplier example_vars) = length (statesTraj example_vars)"
    "length (tx example_vars) = length (statesTraj example_vars)"
    "length (ty example_vars) = length (statesTraj example_vars)"
    "length (accelx example_vars) = length (statesTraj example_vars)"
    "length (accely example_vars) = length (statesTraj example_vars)"
    "length (time example_vars) = length (statesTraj example_vars)"
    by (simp_all add: example_vars_def)
  have n: "length (statesTraj example_vars) = 11"
    by (simp add: example_vars_def)
  have c: "nat \<lceil>real (11::nat) / real (10::nat)\<rceil> = 2"
    using ceiling_div_nat [of 10 11] by simp
  have u: "[0..<2] = [0, Suc 0]"
    by (simp add: numeral_2_eq_2)
  have k: "0 < (10::nat)" by simp
  from stride_samples [OF k l, of "0.010" "9.8" parabola_Pq]
  obtain evs where e: "analysis_loop 10 0.010 9.8 parabola_Pq example_vars 0 [] = Some (evs, None)"
    and r: "length (residuals_printed evs) =
        nat \<lceil>real (length (statesTraj example_vars)) / real (10::nat)\<rceil>"
      "map fst (residuals_printed evs) =
        map (\<lambda>j. time example_vars ! (j * 10))
          [0..<nat \<lceil>real (length (statesTraj example_vars)) / real (10::nat)\<rceil>]"
    by blast
  have h: "length (residuals_printed evs) = 2"
    "map fst (residuals_printed evs) = [time example_vars ! 0, time example_vars ! 10]"
    using r unfolding n c u by simp_all
  show ?thesis
    by (intro conjI exI [of _ evs]) (rule k l n e h)+
qed

subsection \<open>A worked sample\<close>

text \<open>
  Claim C3. With the Jacobian \<open>[2 * tx, -1]\<close> at \<open>tx = 1\<close>, mass 1, gravity 9.8, the
  sign-adjusted multiplier 3 and the accelerations 2 and 12, one pass of the loop gives
  the force \<open>[6, -3]\<close> (the arrow, drawn here at scale 1) and the residuals 4 and -24.8.
\<close>

theorem parabola_scenario:
  "loop_body 1 9.8 (\<lambda>state i j. [[2 * fst state], [- 1]] ! i ! j)
     \<lparr>time = [1], tx = [1], ty = [1], multiplier = [3], accelx = [2], accely = [12],
      statesTraj = [(1, 1)]\<rparr> 0
   = ([CalcPq 0, Arrow 1 1 6 (- 3), Print_Residuals 1 4 (- 24.8)], None)"
  by (simp add: loop_body_def getitem_def mass_def Let_def)

subsection \<open>A multiplier series shorter than the trajectory\<close>




subsection \<open>The scale of the arrows\<close>

text \<open>
  Claim C6. Two runs of the analysis on the same inputs that differ only in the scale
  of line 133 print the same residuals, sample by sample, and end in the same way.
  The stride is any positive number; the source has 10.
\<close>

theorem scale_isolation:
  assumes "0 < stride"
  shows "printed_and_error (analysis stride scale1 g spline2 calcPq solution) =
    printed_and_error (analysis stride scale2 g spline2 calcPq solution)"
proof -
  obtain pev r where p: "prelude spline2 solution = (pev, r)"
    by (cases "prelude spline2 solution")
  show ?thesis
  proof (cases r)
    case (Inl err)
    then show ?thesis by (simp add: analysis_def p)
  next
    case (Inr v)
    have "printed_and_error (analysis_loop stride scale1 g calcPq v 0 pev) =
      printed_and_error (analysis_loop stride scale2 g calcPq v 0 pev)"
      by (rule analysis_loop_scale [OF assms refl])
    then show ?thesis
      by (simp add: analysis_def p Inr printed_and_error_finish)
  qed
qed

theorem scale_isolation_witness:
  "0 < (10::nat) \<and>
   printed_and_error (analysis 10 0.010 9.8 example_spline2 parabola_Pq example_solution) =
     printed_and_error (analysis 10 1 9.8 example_spline2 parabola_Pq example_solution) \<and>
   printed_and_error (analysis 10 1 9.8 example_spline2 parabola_Pq example_solution) =
     Some ([(0, - 2, - 12.8), (10, 218, - 22.8)], None)"
proof -
  have k: "0 < (10::nat)" by simp
  have e: "printed_and_error (analysis 10 0.010 9.8 example_spline2 parabola_Pq example_solution) =
     printed_and_error (analysis 10 1 9.8 example_spline2 parabola_Pq example_solution)"
    by (rule scale_isolation [OF k])
  have v: "printed_and_error (analysis 10 1 9.8 example_spline2 parabola_Pq example_solution) =
     Some ([(0, - 2, - 12.8), (10, 218, - 22.8)], None)"
    unfolding analysis_complete [OF k example_solution_lengths] example_solution_indices
    by (simp add: printed_and_error_def residuals_printed_append residuals_printed_prelude
        sample_events_def bound_vars_def example_solution_def example_spline2_def
        parabola_Pq_def mass_def)
  show ?thesis
    by (intro conjI) (rule k e v)+
qed

subsection \<open>Negating the multiplier\<close>



subsection \<open>The first multiplier only\<close>

text \<open>
  Claim C8. The script reads the multiplier series named first in the solution's list
  of names and no other. Two solutions that agree on that name and on its series, and
  on time, states and trajectory, bind the same variables whatever other multiplier
  names and series they hold, and their runs are the same apart from the number of
  multipliers printed by line 102.
\<close>

theorem first_multiplier_only:
  assumes "getMultiplierNames solution = n # ns"
    and "M n = getMultiplierMat solution n"
  shows "bound_vars spline2 (solution\<lparr>getMultiplierNames := n # ns', getMultiplierMat := M\<rparr>)
      = bound_vars spline2 solution \<and>
    run_without_count (script pylab_ok scipy_ok gravity spline2 calcPq
        (solution\<lparr>getMultiplierNames := n # ns', getMultiplierMat := M\<rparr>)) =
    run_without_count (script pylab_ok scipy_ok gravity spline2 calcPq solution)"
proof -
  let ?s = "solution\<lparr>getMultiplierNames := n # ns', getMultiplierMat := M\<rparr>"
  have k: "0 < (10::nat)" by simp
  have n1: "getMultiplierNames solution \<noteq> []" using assms(1) by simp
  have n2: "getMultiplierNames ?s \<noteq> []" by simp
  have v: "bound_vars spline2 ?s = bound_vars spline2 solution"
    by (simp add: bound_vars_def assms)
  have p: "without_count (prelude_events ?s) = without_count (prelude_events solution)"
    by (simp add: without_count_prelude)
  have "run_without_count (analysis 10 0.010 (g_of gravity) spline2 calcPq ?s) =
    run_without_count (analysis 10 0.010 (g_of gravity) spline2 calcPq solution)"
    unfolding run_without_count_analysis [OF k n1] run_without_count_analysis [OF k n2] v p ..
  then have "run_without_count (script pylab_ok scipy_ok gravity spline2 calcPq ?s) =
    run_without_count (script pylab_ok scipy_ok gravity spline2 calcPq solution)"
    by (simp add: script_def)
  with v show ?thesis by (rule conjI)
qed

theorem first_multiplier_only_witness:
  "getMultiplierNames example_solution = [''lambda_cid2_p0''] \<and>
   getMultiplierMat extra_solution ''lambda_cid2_p0'' =
     getMultiplierMat example_solution ''lambda_cid2_p0'' \<and>
   length (getMultiplierNames extra_solution) = 2 \<and>
   bound_vars example_spline2 extra_solution = bound_vars example_spline2 example_solution \<and>
   run_without_count
     (script True True (0, - 9.80665, 0) example_spline2 parabola_Pq extra_solution) =
   run_without_count
     (script True True (0, - 9.80665, 0) example_spline2 parabola_Pq example_solution)"
proof -
  have h1: "getMultiplierNames example_solution = [''lambda_cid2_p0'']"
    by (simp add: example_solution_def)
  have h2: "getMultiplierMat extra_solution ''lambda_cid2_p0'' =
     getMultiplierMat example_solution ''lambda_cid2_p0''"
    by (simp add: extra_solution_def example_solution_def)
  have h3: "length (getMultiplierNames extra_solution) = 2"
    by (simp add: extra_solution_def)
  have e: "example_solution\<lparr>getMultiplierNames := [''lambda_cid2_p0'', ''lambda_cid3_p0''],
       getMultiplierMat := getMultiplierMat extra_solution\<rparr> = extra_solution"
    by (simp add: extra_solution_def)
  from first_multiplier_only [where solution = example_solution
      and n = "''lambda_cid2_p0''" and ns = "[]" and M = "getMultiplierMat extra_solution"
      and ns' = "[''lambda_cid3_p0'']" and ?spline2.0 = example_spline2
      and pylab_ok = True and scipy_ok = True and gravity = "(0, - 9.80665, 0)"
      and calcPq = parabola_Pq, OF h1 h2]
  have r: "bound_vars example_spline2 extra_solution = bound_vars example_spline2 example_solution"
    "run_without_count
       (script True True (0, - 9.80665, 0) example_spline2 parabola_Pq extra_solution) =
     run_without_count
       (script True True (0, - 9.80665, 0) example_spline2 parabola_Pq example_solution)"
    unfolding e by blast+
  show ?thesis
    by (intro conjI) (rule h1 h2 h3 r)+
qed

subsection \<open>Gravity\<close>

text \<open>
  Claim C9. The gravity scalar of line 34 is the absolute value of the y component of
  the model's gravity vector, so it is never negative and the gravity term
  \<open>- mass * g\<close> is never positive, whatever the sign of that component. The script
  passes this value to the loop: in a run on a solution whose series have the length
  of the trajectory, the second residual printed at each analysed index is
  \<open>- mass * |y| + F.y - mass * accely[i]\<close>.
\<close>

theorem gravity_magnitude_nonneg:
  assumes "getMultiplierNames solution \<noteq> []"
    and "length (multiplier (bound_vars spline2 solution)) = length (statesTraj (bound_vars spline2 solution))"
    and "length (tx (bound_vars spline2 solution)) = length (statesTraj (bound_vars spline2 solution))"
      "length (ty (bound_vars spline2 solution)) = length (statesTraj (bound_vars spline2 solution))"
    and "length (accelx (bound_vars spline2 solution)) = length (statesTraj (bound_vars spline2 solution))"
      "length (accely (bound_vars spline2 solution)) = length (statesTraj (bound_vars spline2 solution))"
    and "length (time (bound_vars spline2 solution)) = length (statesTraj (bound_vars spline2 solution))"
  shows "g_of (x, y, z) = \<bar>y\<bar> \<and> 0 \<le> g_of (x, y, z) \<and> - mass * g_of (x, y, z) \<le> 0 \<and>
    (\<exists>evs. script True True (x, y, z) spline2 calcPq solution = Some (evs, None) \<and>
       residuals_printed evs =
         map (\<lambda>i. (time (bound_vars spline2 solution) ! i,
                   calcPq (statesTraj (bound_vars spline2 solution) ! i) 0 0
                       * multiplier (bound_vars spline2 solution) ! i
                     - mass * accelx (bound_vars spline2 solution) ! i,
                   - mass * \<bar>y\<bar>
                     + calcPq (statesTraj (bound_vars spline2 solution) ! i) 1 0
                       * multiplier (bound_vars spline2 solution) ! i
                     - mass * accely (bound_vars spline2 solution) ! i))
           (indices_from 10 (length (statesTraj (bound_vars spline2 solution))) 0))"
proof -
  have k: "0 < (10::nat)" by simp
  have g: "g_of (x, y, z) = \<bar>y\<bar>"
    by (simp add: g_of_def)
  have s: "script True True (x, y, z) spline2 calcPq solution =
      analysis 10 0.010 \<bar>y\<bar> spline2 calcPq solution"
    by (simp add: script_def g)
  have a: "0 \<le> g_of (x, y, z)" "- mass * g_of (x, y, z) \<le> 0"
    by (simp_all add: g mass_def)
  show ?thesis
    unfolding s analysis_complete [OF k assms]
    using g a
    by (simp add: residuals_printed_append residuals_printed_prelude residuals_printed_samples)
qed

theorem gravity_magnitude_nonneg_witness:
  "getMultiplierNames example_solution \<noteq> [] \<and>
   length (multiplier (bound_vars example_spline2 example_solution)) =
     length (statesTraj (bound_vars example_spline2 example_solution)) \<and>
   length (tx (bound_vars example_spline2 example_solution)) =
     length (statesTraj (bound_vars example_spline2 example_solution)) \<and>
   length (ty (bound_vars example_spline2 example_solution)) =
     length (statesTraj (bound_vars example_spline2 example_solution)) \<and>
   length (accelx (bound_vars example_spline2 example_solution)) =
     length (statesTraj (bound_vars example_spline2 example_solution)) \<and>
   length (accely (bound_vars example_spline2 example_solution)) =
     length (statesTraj (bound_vars example_spline2 example_solution)) \<and>
   length (time (bound_vars example_spline2 example_solution)) =
     length (statesTraj (bound_vars example_spline2 example_solution)) \<and>
   g_of (0, - 9.80665, 0) = 9.80665 \<and>
   (\<exists>evs. script True True (0, - 9.80665, 0) example_spline2 parabola_Pq example_solution
        = Some (evs, None) \<and>
      residuals_printed evs = [(0, - 2, - 12.80665), (10, 218, - 22.80665)])"
proof -
  note l = example_solution_lengths
  from gravity_magnitude_nonneg [OF l, of 0 "- 9.80665" 0 parabola_Pq]
  obtain evs where g: "g_of (0, - 9.80665, 0) = \<bar>- 9.80665\<bar>"
    and e: "script True True (0, - 9.80665, 0) example_spline2 parabola_Pq example_solution
        = Some (evs, None)"
    and r: "residuals_printed evs =
         map (\<lambda>i. (time (bound_vars example_spline2 example_solution) ! i,
                   parabola_Pq (statesTraj (bound_vars example_spline2 example_solution) ! i) 0 0
                       * multiplier (bound_vars example_spline2 example_solution) ! i
                     - mass * accelx (bound_vars example_spline2 example_solution) ! i,
                   - mass * \<bar>- 9.80665\<bar>
                     + parabola_Pq (statesTraj (bound_vars example_spline2 example_solution) ! i) 1 0
                       * multiplier (bound_vars example_spline2 example_solution) ! i
                     - mass * accely (bound_vars example_spline2 example_solution) ! i))
           (indices_from 10 (length (statesTraj (bound_vars example_spline2 example_solution))) 0)"
    by blast
  have g': "g_of (0, - 9.80665, 0) = 9.80665"
    using g by simp
  have h: "residuals_printed evs = [(0, - 2, - 12.80665), (10, 218, - 22.80665)]"
    unfolding r example_solution_indices
    by (simp add: bound_vars_def example_solution_def example_spline2_def parabola_Pq_def
        mass_def)
  show ?thesis
    by (intro conjI exI [of _ evs]) (rule l g' e h)+
qed

subsection \<open>Without pylab or scipy\<close>

text \<open>
  Claim C10. When the import of pylab or of scipy fails, the script prints
  'Skipping plotting' and does nothing else: no spline is evaluated, no Jacobian is
  computed, no residual is printed.
\<close>

theorem skipping_without_imports:
  "script False scipy_ok gravity spline2 calcPq solution = Some ([Print_Skipping], None) \<and>
   script pylab_ok False gravity spline2 calcPq solution = Some ([Print_Skipping], None)"
  by (simp add: script_def)

end
